theory Spec2Isabelle
  imports Main "HOL-Library.Sublist"
begin

section \<open>The PII scanner: an embedding of \<^verbatim>\<open>pii_scanner.py\<close>\<close>

text \<open>
  The scanner reads tabular files, slices each table into windows of \<open>CHUNK_SIZE\<close> rows,
  flattens every window into one line of text, wraps that line into a fixed prompt, posts
  the prompt to a local inference server and prints or logs the answer.

  Everything the script does to the outside (the file system, pandas, HTTP, the clock) is
  read from a \<open>world\<close> record; everything it leaves behind (standard output, the log
  file, the time slept, the requests sent, the files handed to pandas) is collected in a
  \<open>state\<close> record that every operation takes and returns; its field \<open>timeline\<close>
  holds all of these effects in the order in which they happen. The progress bar that
  tqdm draws on standard error is not part of the state.
\<close>

subsection \<open>Python strings\<close>

text \<open>
  A Python \<open>str\<close> is a \<open>string\<close>: a list of 8-bit characters, each read as the code
  point of the same number. These are exactly the characters that \<open>encoding="latin1"\<close>
  produces for the cells of a CSV file.
\<close>

text \<open>\<open>str.isspace\<close> on one character, for the code points below 256.\<close>

definition py_isspace :: "char \<Rightarrow> bool" where
  "py_isspace c = ((of_char c :: nat) \<in> {9, 10, 11, 12, 13, 28, 29, 30, 31, 32, 133, 160})"

text \<open>\<open>s.strip()\<close>: leading and trailing whitespace removed.\<close>

definition py_strip :: "string \<Rightarrow> string" where
  "py_strip s = rev (dropWhile py_isspace (rev (dropWhile py_isspace s)))"

text \<open>\<open>s.lower()\<close>: the ASCII capitals and the Latin-1 capitals move up by 32.\<close>

definition py_lower_char :: "char \<Rightarrow> char" where
  "py_lower_char c =
     (let n = (of_char c :: nat)
      in if (65 \<le> n \<and> n \<le> 90) \<or> (192 \<le> n \<and> n \<le> 222 \<and> n \<noteq> 215)
         then char_of (n + 32) else c)"

definition py_lower :: "string \<Rightarrow> string" where
  "py_lower s = map py_lower_char s"

text \<open>\<open>sep.join(xs)\<close>.\<close>

fun py_join :: "string \<Rightarrow> string list \<Rightarrow> string" where
  "py_join sep [] = []"
| "py_join sep [x] = x"
| "py_join sep (x # y # ys) = x @ sep @ py_join sep (y # ys)"

text \<open>\<open>pat in s\<close> for two strings: \<open>pat\<close> occurs in \<open>s\<close> as a contiguous run.\<close>

fun str_contains :: "string \<Rightarrow> string \<Rightarrow> bool" where
  "str_contains pat [] = (pat = [])"
| "str_contains pat (c # cs) = (prefix pat (c # cs) \<or> str_contains pat cs)"

text \<open>\<open>s.endswith(suffixes)\<close> with a tuple of suffixes.\<close>

definition endswith :: "string \<Rightarrow> string list \<Rightarrow> bool" where
  "endswith s sufs = list_ex (\<lambda>suf. suffix suf s) sufs"

text \<open>\<open>str(n)\<close> for a natural number and for an integer, in decimal.\<close>

function string_of_nat :: "nat \<Rightarrow> string" where
  "string_of_nat n =
     (if n < 10 then [''0123456789'' ! n]
      else string_of_nat (n div 10) @ [''0123456789'' ! (n mod 10)])"
  by pat_completeness auto
termination
  by (relation "measure id") auto

declare string_of_nat.simps [simp del]

definition string_of_int :: "int \<Rightarrow> string" where
  "string_of_int i = (if i < 0 then ''-'' @ string_of_nat (nat (- i)) else string_of_nat (nat i))"

text \<open>
  \<open>s.rfind(c)\<close> for a single character: the last index of \<open>c\<close>, or \<open>-1\<close>.
\<close>

definition rfind :: "char \<Rightarrow> string \<Rightarrow> int" where
  "rfind c p =
     (case filter (\<lambda>i. p ! i = c) (rev [0 ..< length p]) of
        [] \<Rightarrow> - 1
      | i # _ \<Rightarrow> int i)"

text \<open>
  \<open>os.path.splitext\<close> (the POSIX flavour): the extension starts at the last dot of the
  last path component, unless only dots precede it there.
\<close>

definition splitext :: "string \<Rightarrow> string \<times> string" where
  "splitext p =
     (let sepIndex = rfind (CHR ''/'') p;
          dotIndex = rfind (CHR ''.'') p
      in if dotIndex > sepIndex
            \<and> list_ex (\<lambda>k. p ! k \<noteq> CHR ''.'') [nat (sepIndex + 1) ..< nat dotIndex]
         then (take (nat dotIndex) p, drop (nat dotIndex) p)
         else (p, []))"

text \<open>\<open>os.path.join(a, b)\<close> for two components (the POSIX flavour).\<close>

definition path_join :: "string \<Rightarrow> string \<Rightarrow> string" where
  "path_join a b =
     (if prefix ''/'' b then b
      else if a = [] \<or> suffix ''/'' a then a @ b
      else a @ ''/'' @ b)"

subsection \<open>Configuration constants\<close>

definition OLLAMA_URL :: string where
  "OLLAMA_URL = ''http://localhost:11434/api/generate''"

definition OLLAMA_MODEL :: string where
  "OLLAMA_MODEL = ''llama3''"

definition DATA_FOLDER :: string where
  "DATA_FOLDER = ''Data''"

definition CHUNK_SIZE :: nat where
  "CHUNK_SIZE = 1000"

definition PII_DEFINITIONS :: string where
  "PII_DEFINITIONS =
     ''\<newline>Personally Identifiable Information (PII) includes:\<newline>''
     @ ''- Full names\<newline>''
     @ ''- Addresses (street, city, postal code)\<newline>''
     @ ''- Phone numbers\<newline>''
     @ ''- Email addresses\<newline>''
     @ ''- Social security numbers (SSNs) or national ID numbers\<newline>''
     @ ''- Credit card numbers\<newline>''
     @ ''- Bank account numbers\<newline>''
     @ ''- Dates of birth\<newline>''
     @ ''- Any sensitive data that uniquely identifies an individual\<newline>''"

subsection \<open>Tables and cells\<close>

text \<open>
  A cell is what iterating over a row of the DataFrame yields. \<open>CNone\<close> is Python's
  \<open>None\<close>; \<open>CNaN\<close> is a missing value (NaN, NaT); \<open>CFloat r\<close> is a float that is a
  number, carried by its rendering \<open>r = str(value)\<close>, the only thing the program ever
  reads of it.
\<close>

datatype cell = CNone | CNaN | CStr string | CInt int | CBool bool | CFloat string

record table =
  columns :: "cell list"
  rows :: "cell list list"

text \<open>\<open>pd.notna(value)\<close>.\<close>

fun notna :: "cell \<Rightarrow> bool" where
  "notna CNone = False"
| "notna CNaN = False"
| "notna _ = True"

text \<open>
  \<open>value in [None, "", "nan", "NaN", "NAN"]\<close>: membership compares the value itself, so
  only \<open>None\<close> and a string can be found in the list.
\<close>

definition empty_strings :: "string list" where
  "empty_strings = ['''', ''nan'', ''NaN'', ''NAN'']"

fun in_exclusions :: "cell \<Rightarrow> bool" where
  "in_exclusions CNone = True"
| "in_exclusions (CStr s) = (s \<in> set empty_strings)"
| "in_exclusions _ = False"

text \<open>\<open>str(value)\<close>.\<close>

fun py_str :: "cell \<Rightarrow> string" where
  "py_str CNone = ''None''"
| "py_str CNaN = ''nan''"
| "py_str (CStr s) = s"
| "py_str (CInt i) = string_of_int i"
| "py_str (CBool b) = (if b then ''True'' else ''False'')"
| "py_str (CFloat r) = r"

subsection \<open>The flattener: \<^verbatim>\<open>extract_non_null_data\<close>\<close>

text \<open>
  The inner loop over the values of one row and the outer loop over the rows, both
  appending to the list \<open>non_null_data\<close>.
\<close>

fun extract_row :: "cell list \<Rightarrow> string list \<Rightarrow> string list" where
  "extract_row [] non_null_data = non_null_data"
| "extract_row (v # row) non_null_data =
     extract_row row
       (if notna v \<and> \<not> in_exclusions v
        then non_null_data @ [py_strip (py_str v)]
        else non_null_data)"

fun extract_rows :: "cell list list \<Rightarrow> string list \<Rightarrow> string list" where
  "extract_rows [] non_null_data = non_null_data"
| "extract_rows (row # chunk) non_null_data =
     extract_rows chunk (extract_row row non_null_data)"

definition extract_non_null_data :: "cell list list \<Rightarrow> string list" where
  "extract_non_null_data chunk = extract_rows chunk []"

text \<open>\<open>dataset_text = " ".join(non_null_data)\<close>, the flattened text of a chunk.\<close>

definition dataset_text :: "cell list list \<Rightarrow> string" where
  "dataset_text chunk = py_join '' '' (extract_non_null_data chunk)"

subsection \<open>The chunker\<close>

text \<open>
  \<open>range(start, stop, step)\<close> for a positive step. Python raises \<open>ValueError\<close> for a
  step of zero; the only step the script uses is \<open>CHUNK_SIZE\<close>.
\<close>

function range_step :: "nat \<Rightarrow> nat \<Rightarrow> nat \<Rightarrow> nat list" where
  "range_step i stop step =
     (if step = 0 \<or> stop \<le> i then [] else i # range_step (i + step) stop step)"
  by pat_completeness auto
termination
  by (relation "measure (\<lambda>(i, stop, step). stop - i)") auto

declare range_step.simps [simp del]

text \<open>
  The chunks of a table, each with its starting row index \<open>i\<close>:
  \<open>df.iloc[i : i + csize]\<close> for \<open>i\<close> in \<open>range(0, len(df), csize)\<close>.
\<close>

definition iloc :: "cell list list \<Rightarrow> nat \<Rightarrow> nat \<Rightarrow> cell list list" where
  "iloc df i j = take (j - i) (drop i df)"

definition chunks :: "nat \<Rightarrow> cell list list \<Rightarrow> (nat \<times> cell list list) list" where
  "chunks csize df =
     map (\<lambda>i. (i, iloc df i (i + csize))) (range_step 0 (length df) csize)"

text \<open>The row indices that a chunk starting at \<open>i\<close> covers.\<close>

definition row_range :: "nat \<times> cell list list \<Rightarrow> nat list" where
  "row_range c = [fst c ..< fst c + length (snd c)]"

subsection \<open>The outside world and the effects of a run\<close>

text \<open>
  A value as \<open>json.loads\<close> builds it. \<open>PScalar b\<close> is a JSON \<open>true\<close>, \<open>false\<close> or
  number, of which the program reads nothing but its truth value \<open>b\<close> (a number is true
  when it is not zero). The items of a \<open>PDict\<close> have distinct keys.
\<close>

datatype pyval =
    PNone
  | PScalar bool
  | PStr string
  | PList "pyval list"
  | PDict "(string \<times> pyval) list"

text \<open>
  The exceptions that can travel through the script: the one \<open>requests\<close> raises for any
  transport failure, those of \<open>json.loads\<close>, of \<open>.get\<close> on a value that is no
  dictionary and of \<open>in\<close> on a value that is no container, whatever pandas raises
  when it cannot read a file, and what \<open>os.listdir\<close> raises.
\<close>

datatype py_exn =
    RequestException
  | JSONDecodeError
  | AttributeError
  | TypeError
  | ReadError
  | OSError

text \<open>What one HTTP request comes to: an exception, or a status code and a body text.\<close>

datatype http_result = Raised | Responded nat string

record payload =
  model :: string
  prompt :: string
  stream :: bool

record request =
  url :: string
  headers :: "(string \<times> string) list"
  json :: payload
  timeout :: nat

text \<open>
  The world. \<open>http_post k r\<close> is the outcome of the \<open>k\<close>-th POST of the run (counted
  from zero) when it carries the request \<open>r\<close>. \<open>file_records path\<close> is the sequence of
  records (lines of a CSV file, rows of a sheet) that pandas finds in the file, in file
  order, or \<open>None\<close> when pandas cannot read the file at all.
\<close>

record world =
  path_exists :: "string \<Rightarrow> bool"
  listdir :: "string \<Rightarrow> string list option"
  http_get :: "string \<Rightarrow> nat \<Rightarrow> http_result"
  http_post :: "nat \<Rightarrow> request \<Rightarrow> http_result"
  json_loads :: "string \<Rightarrow> pyval option"
  file_records :: "string \<Rightarrow> cell list list option"

text \<open>
  A line of output is a text, possibly followed by the rendering \<open>str(x)\<close> of one more
  object \<open>x\<close>: a value of the model's answer, the payload dictionary, or an exception.
  The rendering of a string is the string; the other renderings are Python's and are kept
  symbolic.
\<close>

datatype rendered = OfValue pyval | OfPayload payload | OfException py_exn

datatype message = Message string "rendered option"

fun message_text :: "message \<Rightarrow> string option" where
  "message_text (Message t None) = Some t"
| "message_text (Message t (Some (OfValue (PStr v)))) = Some (t @ v)"
| "message_text (Message t (Some _)) = None"

datatype level = INFO | WARNING | ERROR

text \<open>
  One effect of the run: a line printed, a line logged, a request posted, a sleep of so
  many seconds, a file handed to pandas.
\<close>

datatype event =
    Printed message
  | Logged level message
  | Posted request
  | Slept nat
  | Opened string

record state =
  console :: "message list"
  logfile :: "(level \<times> message) list"
  sleeps :: "nat list"
  sent :: "request list"
  opened :: "string list"
  timeline :: "event list"

definition init_state :: state where
  "init_state =
     \<lparr>console = [], logfile = [], sleeps = [], sent = [], opened = [], timeline = []\<rparr>"

text \<open>\<open>print(...)\<close>, \<open>logging.info/warning/error(...)\<close> and \<open>time.sleep(...)\<close>.\<close>

definition print :: "message \<Rightarrow> state \<Rightarrow> state" where
  "print m s = s\<lparr>console := console s @ [m], timeline := timeline s @ [Printed m]\<rparr>"

definition logging :: "level \<Rightarrow> message \<Rightarrow> state \<Rightarrow> state" where
  "logging l m s = s\<lparr>logfile := logfile s @ [(l, m)], timeline := timeline s @ [Logged l m]\<rparr>"

definition sleep :: "nat \<Rightarrow> state \<Rightarrow> state" where
  "sleep n s = s\<lparr>sleeps := sleeps s @ [n], timeline := timeline s @ [Slept n]\<rparr>"

subsection \<open>The liveness probe: \<^verbatim>\<open>check_ollama_server\<close>\<close>

definition check_ollama_server :: "world \<Rightarrow> bool" where
  "check_ollama_server w =
     (case http_get w ''http://localhost:11434'' 10 of
        Raised \<Rightarrow> False
      | Responded status_code _ \<Rightarrow> status_code = 200)"

subsection \<open>The prompt\<close>

text \<open>
  The two f-strings of the script differ only in their indentation (twelve blanks in
  \<open>scan_chunk_with_llm\<close>, eight in \<open>process_file\<close>), which is \<open>ind\<close> here.
\<close>

definition prompt_template :: "string \<Rightarrow> string \<Rightarrow> string" where
  "prompt_template ind text =
     ''\<newline>''
     @ ind @ ''Detect any Personally Identifiable Information (PII) as per the PII Categories in the dataset. \<newline>''
     @ ind @ ''If PII is found, list it.\<newline>''
     @ ind @ ''If no PII is found, respond with: '' @ [CHR 0x27] @ ''No PII detected.'' @ [CHR 0x27] @ ''\<newline>''
     @ ind @ ''Do not describe or analyze the dataset.\<newline>''
     @ ''\<newline>''
     @ ind @ ''PII Categories:\<newline>''
     @ ind @ PII_DEFINITIONS @ ''\<newline>''
     @ ''\<newline>''
     @ ind @ ''Dataset:\<newline>''
     @ ind @ text @ ''\<newline>''
     @ ind"

subsection \<open>The model client: \<^verbatim>\<open>scan_chunk_with_llm\<close>\<close>

text \<open>\<open>truth value of a Python object\<close>, as \<open>if result:\<close> tests it.\<close>

fun truthy :: "pyval \<Rightarrow> bool" where
  "truthy PNone = False"
| "truthy (PScalar b) = b"
| "truthy (PStr v) = (v \<noteq> [])"
| "truthy (PList xs) = (xs \<noteq> [])"
| "truthy (PDict kvs) = (kvs \<noteq> [])"

text \<open>\<open>json.loads(response.text).get("response", "")\<close>.\<close>

definition get_response :: "world \<Rightarrow> string \<Rightarrow> py_exn + pyval" where
  "get_response w text =
     (case json_loads w text of
        None \<Rightarrow> Inl JSONDecodeError
      | Some (PDict kvs) \<Rightarrow>
          (case map_of kvs ''response'' of None \<Rightarrow> Inr (PStr []) | Some v \<Rightarrow> Inr v)
      | Some _ \<Rightarrow> Inl AttributeError)"

text \<open>
  The loop \<open>for attempt in range(retries)\<close>, entered at \<open>attempt\<close>. The function returns
  the value that \<open>scan_chunk_with_llm\<close> returns (\<open>PNone\<close> for \<open>None\<close>) or the
  exception that leaves it, and the state it leaves behind.
\<close>

function scan_attempts ::
  "world \<Rightarrow> cell list list \<Rightarrow> nat \<Rightarrow> nat \<Rightarrow> nat \<Rightarrow> state \<Rightarrow> (py_exn + pyval) \<times> state" where
  "scan_attempts w chunk retries delay attempt s =
     (if retries \<le> attempt then (Inr PNone, s)
      else
        let non_null_data = extract_non_null_data chunk;
            text = py_join '' '' non_null_data;
            p = \<lparr>model = OLLAMA_MODEL,
                 prompt = prompt_template (replicate 12 CHR '' '') text,
                 stream = False\<rparr>;
            r = \<lparr>url = OLLAMA_URL,
                 headers = [(''Content-Type'', ''application/json'')],
                 json = p,
                 timeout = 300\<rparr>;
            s1 = logging INFO (Message ''Sending request to Ollama server: '' (Some (OfPayload p))) s;
            s2 = s1\<lparr>sent := sent s1 @ [r], timeline := timeline s1 @ [Posted r]\<rparr>
        in case http_post w (length (sent s1)) r of
             Responded status_code body \<Rightarrow>
               (let s3 = logging INFO
                           (Message (''Response status code: '' @ string_of_nat status_code) None) s2
                in if status_code = 200 then (get_response w body, s3)
                   else (Inr PNone,
                         logging ERROR
                           (Message (''Error from LLM: '' @ string_of_nat status_code
                                       @ '' - '' @ body) None) s3))
           | Raised \<Rightarrow>
               (let s3 = logging ERROR
                           (Message (''Attempt '' @ string_of_nat (attempt + 1) @ '' failed: '')
                              (Some (OfException RequestException))) s2
                in if attempt < retries - 1
                   then scan_attempts w chunk retries delay (attempt + 1)
                          (sleep (delay * (attempt + 1)) s3)
                   else (Inr PNone, s3)))"
  by pat_completeness auto
termination
  by (relation "measure (\<lambda>(w, chunk, retries, delay, attempt, s). retries - attempt)") auto

declare scan_attempts.simps [simp del]

definition scan_chunk_with_llm ::
  "world \<Rightarrow> cell list list \<Rightarrow> nat \<Rightarrow> nat \<Rightarrow> state \<Rightarrow> (py_exn + pyval) \<times> state" where
  "scan_chunk_with_llm w chunk retries delay s = scan_attempts w chunk retries delay 0 s"

subsection \<open>The reporter: lines 139 to 145 of \<^verbatim>\<open>process_file\<close>\<close>

text \<open>
  \<open>pat in x\<close> for a string \<open>pat\<close>: a substring test on a string, an element test on a
  list, a key test on a dictionary, and \<open>TypeError\<close> on anything else.
\<close>

fun py_in :: "string \<Rightarrow> pyval \<Rightarrow> py_exn + bool" where
  "py_in pat (PStr v) = Inr (str_contains pat v)"
| "py_in pat (PList xs) = Inr (PStr pat \<in> set xs)"
| "py_in pat (PDict kvs) = Inr (pat \<in> set (map fst kvs))"
| "py_in pat _ = Inl TypeError"

text \<open>The label \<open>(Rows i-j)\<close> that both branches print, \<open>j = i + CHUNK_SIZE - 1\<close>.\<close>

definition rows_label :: "nat \<Rightarrow> string" where
  "rows_label i =
     ''(Rows '' @ string_of_nat i @ ''-'' @ string_of_nat (i + CHUNK_SIZE - 1) @ '')''"

text \<open>
  The sign in front of \<open>Detected PII\<close> is the code point U+1F680, which lies outside the
  8-bit range: it is written as the four bytes of its UTF-8 form.
\<close>

definition rocket :: string where
  "rocket = [CHR 0xF0, CHR 0x9F, CHR 0x9A, CHR 0x80]"

text \<open>
  What the loop body does with the \<open>result\<close> of a chunk. \<open>print(a, b)\<close> writes \<open>a\<close>, a
  blank and \<open>str(b)\<close>. The line feed that \<open>print\<close> adds after every call is left out of
  all console messages.
\<close>

definition report_result :: "string \<Rightarrow> nat \<Rightarrow> pyval \<Rightarrow> state \<Rightarrow> py_exn + state" where
  "report_result file_path i result s =
     (if truthy result then
        (case py_in ''No PII detected'' result of
           Inl e \<Rightarrow> Inl e
         | Inr True \<Rightarrow>
             (let m = Message (''No PII detected in '' @ file_path @ '' '' @ rows_label i @ ''.'') None
              in Inr (logging INFO m (print m s)))
         | Inr False \<Rightarrow>
             Inr (logging INFO
                    (Message (''PII detected in '' @ file_path @ '' '' @ rows_label i @ '': '')
                       (Some (OfValue result)))
                    (print
                       (Message (''\<newline>'' @ rocket @ '' Detected PII in '' @ file_path @ '' ''
                                   @ rows_label i @ '':\<newline>'' @ '' '')
                          (Some (OfValue result))) s)))
      else Inr s)"

subsection \<open>Reading a file with pandas\<close>

datatype reader = ReadCsv | ReadExcel

text \<open>
  \<open>pd.read_csv(path, ..., skiprows=n)\<close> and \<open>pd.read_excel(path, ..., skiprows=n)\<close>, as
  the pandas documentation describes them: the first \<open>n\<close> records of the file are
  dropped, the next record names the columns, the records after it are the rows of the
  DataFrame. When nothing is left to name the columns, \<open>read_csv\<close> raises and
  \<open>read_excel\<close> returns an empty DataFrame.
\<close>

definition pd_read :: "world \<Rightarrow> reader \<Rightarrow> string \<Rightarrow> nat \<Rightarrow> py_exn + table" where
  "pd_read w rd path skiprows =
     (case file_records w path of
        None \<Rightarrow> Inl ReadError
      | Some records \<Rightarrow>
          (case drop skiprows records of
             [] \<Rightarrow> (case rd of
                      ReadCsv \<Rightarrow> Inl ReadError
                    | ReadExcel \<Rightarrow> Inr \<lparr>columns = [], rows = []\<rparr>)
           | header # body \<Rightarrow> Inr \<lparr>columns = header, rows = body\<rparr>))"

subsection \<open>Processing one file: \<^verbatim>\<open>process_file\<close>\<close>

text \<open>
  The loop over the chunks (lines 135 to 145). An exception leaves the loop at once, with
  the state reached so far.
\<close>

fun chunk_loop ::
  "world \<Rightarrow> string \<Rightarrow> (nat \<times> cell list list) list \<Rightarrow> state \<Rightarrow> (py_exn + unit) \<times> state" where
  "chunk_loop w file_path [] s = (Inr (), s)"
| "chunk_loop w file_path ((i, chunk) # rest) s =
     (case scan_chunk_with_llm w chunk 5 5 s of
        (Inl e, s1) \<Rightarrow> (Inl e, s1)
      | (Inr result, s1) \<Rightarrow>
          (case report_result file_path i result s1 of
             Inl e \<Rightarrow> (Inl e, s1)
           | Inr s2 \<Rightarrow> chunk_loop w file_path rest s2))"

text \<open>Lines 109 to 145: what \<open>process_file\<close> does with the DataFrame once it is loaded.\<close>

definition process_table ::
  "world \<Rightarrow> string \<Rightarrow> cell list list \<Rightarrow> state \<Rightarrow> (py_exn + unit) \<times> state" where
  "process_table w file_path df s =
     (let s1 = logging INFO
                 (Message (''Processing file: '' @ file_path @ '' - ''
                             @ string_of_nat (length df) @ '' rows'') None) s;
          first_chunk = iloc df 0 CHUNK_SIZE;
          non_null_data = extract_non_null_data first_chunk;
          text = py_join '' '' non_null_data;
          p = prompt_template (replicate 8 CHR '' '') text;
          s2 = print (Message (''\<newline>'' @ replicate 80 CHR ''='') None) s1;
          s3 = print (Message (''Prompt for Rows 0 to '' @ string_of_nat (CHUNK_SIZE - 1) @ '':'') None) s2;
          s4 = print (Message p None) s3;
          s5 = print (Message (replicate 80 CHR ''='' @ ''\<newline>'') None) s4
      in chunk_loop w file_path (chunks CHUNK_SIZE df) s5)"

text \<open>Lines 100 to 107: the reader is chosen by the lower-cased extension.\<close>

definition select_reader :: "string \<Rightarrow> reader option" where
  "select_reader file_path =
     (let file_extension = py_lower (snd (splitext file_path))
      in if file_extension = ''.csv'' then Some ReadCsv
         else if file_extension \<in> set [''.xls'', ''.xlsx''] then Some ReadExcel
         else None)"

text \<open>The body of the \<open>try\<close> block, and the whole function with its \<open>except Exception\<close>.\<close>

definition process_file_try :: "world \<Rightarrow> string \<Rightarrow> state \<Rightarrow> (py_exn + unit) \<times> state" where
  "process_file_try w file_path s =
     (case select_reader file_path of
        None \<Rightarrow>
          (Inr (), logging WARNING (Message (''Unsupported file format: '' @ file_path) None) s)
      | Some rd \<Rightarrow>
          (let s1 = s\<lparr>opened := opened s @ [file_path],
                      timeline := timeline s @ [Opened file_path]\<rparr>
           in case pd_read w rd file_path 1 of
                Inl e \<Rightarrow> (Inl e, s1)
              | Inr df \<Rightarrow> process_table w file_path (rows df) s1))"

definition process_file :: "world \<Rightarrow> string \<Rightarrow> state \<Rightarrow> state" where
  "process_file w file_path s =
     (case process_file_try w file_path s of
        (Inl e, s1) \<Rightarrow>
          logging ERROR
            (Message (''Error processing '' @ file_path @ '': '') (Some (OfException e))) s1
      | (Inr _, s1) \<Rightarrow> s1)"

subsection \<open>The whole run: \<^verbatim>\<open>main\<close>\<close>

text \<open>
  The result is the exception that ends the run, if any (\<open>os.listdir\<close> is not guarded),
  and the final state.
\<close>

definition main :: "world \<Rightarrow> state \<Rightarrow> py_exn option \<times> state" where
  "main w s =
     (if \<not> path_exists w DATA_FOLDER then
        (None,
         logging ERROR
           (Message (''Data folder '' @ [CHR 0x27] @ DATA_FOLDER @ [CHR 0x27] @ '' not found!'') None) s)
      else if \<not> check_ollama_server w then
        (None,
         print (Message ''Ollama server is not running or inaccessible!'' None)
           (logging ERROR (Message ''Ollama server is not running or inaccessible!'' None) s))
      else
        (case listdir w DATA_FOLDER of
           None \<Rightarrow> (Some OSError, s)
         | Some names \<Rightarrow>
             (let files = filter (\<lambda>f. endswith f [''.csv'', ''.xls'', ''.xlsx'']) names
              in if files = [] then
                   (None,
                    print (Message ''No datasets found.'' None)
                      (logging INFO (Message ''No datasets found in the Data folder.'' None) s))
                 else
                   (None,
                    fold (\<lambda>file. process_file w (path_join DATA_FOLDER file)) files s))))"

subsection \<open>Notions used to state the properties\<close>

text \<open>A cell that the flattener passes over, in the words of the specification: it is
  missing, or its rendering is one of the empty markers.\<close>

definition skipped_cell :: "cell \<Rightarrow> bool" where
  "skipped_cell v = (\<not> notna v \<or> py_str v \<in> set empty_strings)"

text \<open>A float that is a number never renders as the empty string or as a NaN.\<close>

fun rendering_ok :: "cell \<Rightarrow> bool" where
  "rendering_ok (CFloat r) = (r \<notin> set empty_strings)"
| "rendering_ok _ = True"

text \<open>\<open>s.split(" ")\<close>: the pieces of \<open>s\<close> between single blanks.\<close>

fun split_blank :: "string \<Rightarrow> string list" where
  "split_blank [] = [[]]"
| "split_blank (c # cs) =
     (if c = CHR '' '' then [] # split_blank cs
      else (case split_blank cs of
              [] \<Rightarrow> [[c]]
            | t # ts \<Rightarrow> (c # t) # ts))"

text \<open>A chunk of one column whose cells are the given strings.\<close>

definition single_column :: "string list \<Rightarrow> cell list list" where
  "single_column ts = map (\<lambda>t. [CStr t]) ts"

text \<open>The payload and the request that \<open>scan_chunk_with_llm\<close> builds for a chunk.\<close>

definition scan_payload :: "cell list list \<Rightarrow> payload" where
  "scan_payload chunk =
     \<lparr>model = OLLAMA_MODEL,
      prompt = prompt_template (replicate 12 CHR '' '') (dataset_text chunk),
      stream = False\<rparr>"

definition scan_request :: "cell list list \<Rightarrow> request" where
  "scan_request chunk =
     \<lparr>url = OLLAMA_URL,
      headers = [(''Content-Type'', ''application/json'')],
      json = scan_payload chunk,
      timeout = 300\<rparr>"

text \<open>The two log messages of a failed attempt.\<close>

definition sending_message :: "cell list list \<Rightarrow> message" where
  "sending_message chunk =
     Message ''Sending request to Ollama server: '' (Some (OfPayload (scan_payload chunk)))"

definition failed_message :: "nat \<Rightarrow> message" where
  "failed_message attempt =
     Message (''Attempt '' @ string_of_nat (attempt + 1) @ '' failed: '')
       (Some (OfException RequestException))"

text \<open>A world in which the folder exists and is empty, and every request raises.\<close>

definition quiet_world :: world where
  "quiet_world =
     \<lparr>path_exists = (\<lambda>p. True),
      listdir = (\<lambda>p. Some []),
      http_get = (\<lambda>u t. Raised),
      http_post = (\<lambda>k r. Raised),
      json_loads = (\<lambda>t. None),
      file_records = (\<lambda>p. None)\<rparr>"

text \<open>
  The state after the request for a chunk has been logged and sent, after attempt number
  \<open>attempt\<close> has been logged as failed, and after \<open>k\<close> failed attempts in a row, each
  followed by its sleep.
\<close>

definition posted :: "cell list list \<Rightarrow> state \<Rightarrow> state" where
  "posted chunk s =
     (let s1 = logging INFO (sending_message chunk) s
      in s1\<lparr>sent := sent s1 @ [scan_request chunk],
            timeline := timeline s1 @ [Posted (scan_request chunk)]\<rparr>)"

definition attempt_failed :: "nat \<Rightarrow> state \<Rightarrow> state" where
  "attempt_failed attempt s = logging ERROR (failed_message attempt) s"

fun failures :: "cell list list \<Rightarrow> nat \<Rightarrow> nat \<Rightarrow> nat \<Rightarrow> state \<Rightarrow> state" where
  "failures chunk delay attempt 0 s = s"
| "failures chunk delay attempt (Suc k) s =
     failures chunk delay (attempt + 1) k
       (sleep (delay * (attempt + 1)) (attempt_failed attempt (posted chunk s)))"

text \<open>
  The effects of one failed attempt that is followed by another, in their order: the
  request is logged, then posted, the failure is logged, and the client sleeps.
\<close>

definition failed_round :: "cell list list \<Rightarrow> nat \<Rightarrow> nat \<Rightarrow> event list" where
  "failed_round chunk delay attempt =
     [Logged INFO (sending_message chunk),
      Posted (scan_request chunk),
      Logged ERROR (failed_message attempt),
      Slept (delay * (attempt + 1))]"

text \<open>The lines that the reporter and \<open>main\<close> print and log.\<close>

definition clean_message :: "string \<Rightarrow> nat \<Rightarrow> message" where
  "clean_message file_path i =
     Message (''No PII detected in '' @ file_path @ '' '' @ rows_label i @ ''.'') None"

definition flagged_console :: "string \<Rightarrow> nat \<Rightarrow> pyval \<Rightarrow> message" where
  "flagged_console file_path i result =
     Message (''\<newline>'' @ rocket @ '' Detected PII in '' @ file_path @ '' ''
                @ rows_label i @ '':\<newline>'' @ '' '')
       (Some (OfValue result))"

definition flagged_log :: "string \<Rightarrow> nat \<Rightarrow> pyval \<Rightarrow> message" where
  "flagged_log file_path i result =
     Message (''PII detected in '' @ file_path @ '' '' @ rows_label i @ '': '')
       (Some (OfValue result))"

definition probe_error :: message where
  "probe_error = Message ''Ollama server is not running or inaccessible!'' None"

text \<open>
  A world in which the server answers the probe with 200 and the folder holds the given
  names; every other request raises and no file can be read.
\<close>

definition dir_world :: "string list \<Rightarrow> world" where
  "dir_world names =
     quiet_world\<lparr>listdir := \<lambda>d. Some names, http_get := \<lambda>u t. Responded 200 []\<rparr>"

section \<open>Properties\<close>

subsection \<open>The flattener\<close>

lemma extract_row_eq:
  "extract_row row acc = acc @ map (py_strip \<circ> py_str) (filter (\<lambda>v. notna v \<and> \<not> in_exclusions v) row)"
  by (induction row arbitrary: acc) auto

lemma extract_rows_eq:
  "extract_rows chunk acc =
     acc @ map (py_strip \<circ> py_str) (filter (\<lambda>v. notna v \<and> \<not> in_exclusions v) (concat chunk))"
  by (induction chunk arbitrary: acc) (auto simp: extract_row_eq)

lemma string_of_nat_digits: "string_of_nat n \<noteq> [] \<and> set (string_of_nat n) \<subseteq> set ''0123456789''"
proof (induction n rule: string_of_nat.induct)
  case (1 n)
  have d: "\<And>k. k < 10 \<Longrightarrow> ''0123456789'' ! k \<in> set ''0123456789''"
    by (rule nth_mem) simp
  show ?case
  proof (cases "n < 10")
    case True
    then show ?thesis using d[of n] by (subst string_of_nat.simps, subst (2) string_of_nat.simps) simp
  next
    case False
    then show ?thesis using 1 d[of "n mod 10"]
      by (subst string_of_nat.simps, subst (2) string_of_nat.simps) simp
  qed
qed

lemma string_of_int_not_empty: "string_of_int i \<notin> set empty_strings"
proof -
  have a: "string_of_nat n \<notin> set empty_strings" for n
    using string_of_nat_digits[of n] by (auto simp: empty_strings_def)
  have b: "''-'' @ s \<notin> set empty_strings" for s
    by (auto simp: empty_strings_def)
  show ?thesis unfolding string_of_int_def using a b by simp
qed

lemma kept_iff_not_skipped:
  "rendering_ok v \<Longrightarrow> (notna v \<and> \<not> in_exclusions v) = (\<not> skipped_cell v)"
  by (cases v) (simp_all add: skipped_cell_def string_of_int_not_empty, simp_all add: empty_strings_def)

text \<open>
  Claim C5. The flattener visits the cells of a chunk row by row and, within a row, column
  by column; it passes over every cell that is missing or whose rendering is the empty
  string, \<open>nan\<close>, \<open>NaN\<close> or \<open>NAN\<close>; every other cell is rendered and stripped of
  surrounding whitespace; and the flattened text is these tokens joined by single blanks.
  Both are functions of the chunk alone. (A float that is a number never renders as one
  of the four markers, which is all that \<open>rendering_ok\<close> asks.)
\<close>

theorem flattener_row_major:
  assumes "\<forall>v \<in> set (concat chunk). rendering_ok v"
  shows "extract_non_null_data chunk
           = map (py_strip \<circ> py_str) (filter (\<lambda>v. \<not> skipped_cell v) (concat chunk))
         \<and> dataset_text chunk
           = py_join '' '' (map (py_strip \<circ> py_str) (filter (\<lambda>v. \<not> skipped_cell v) (concat chunk)))"
proof -
  have "filter (\<lambda>v. notna v \<and> \<not> in_exclusions v) (concat chunk)
          = filter (\<lambda>v. \<not> skipped_cell v) (concat chunk)"
  proof (rule filter_cong [OF refl])
    fix v assume "v \<in> set (concat chunk)"
    with assms have "rendering_ok v" by blast
    then show "(notna v \<and> \<not> in_exclusions v) = (\<not> skipped_cell v)"
      by (rule kept_iff_not_skipped)
  qed
  then show ?thesis
    by (simp add: dataset_text_def extract_non_null_data_def extract_rows_eq)
qed

theorem flattener_row_major_witness:
  "dataset_text [[CStr '' x '', CNaN, CInt (- 12)], [CStr ''nan'', CNone, CBool True, CFloat ''1.5'']]
     = ''x -12 True 1.5''"
  using flattener_row_major
          [of "[[CStr '' x '', CNaN, CInt (- 12)], [CStr ''nan'', CNone, CBool True, CFloat ''1.5'']]"]
  by (simp add: skipped_cell_def empty_strings_def py_strip_def py_isspace_def string_of_int_def
        string_of_nat.simps)

lemma map_filter_id_iff:
  "map f (filter P xs) = xs \<longleftrightarrow> (\<forall>x \<in> set xs. P x \<and> f x = x)"
proof
  assume eq: "map f (filter P xs) = xs"
  then have "length (filter P xs) = length xs"
    by (metis length_map)
  then have all: "\<forall>x \<in> set xs. P x"
    by (metis length_filter_less less_irrefl)
  then have "filter P xs = xs" by simp
  with eq have "map f xs = map id xs" by simp
  then have "\<forall>x \<in> set xs. f x = x"
    unfolding map_eq_conv by simp
  with all show "\<forall>x \<in> set xs. P x \<and> f x = x" by blast
next
  assume a: "\<forall>x \<in> set xs. P x \<and> f x = x"
  then have "filter P xs = xs" by simp
  moreover from a have "map f xs = xs" by (simp add: map_idI)
  ultimately show "map f (filter P xs) = xs" by simp
qed

lemma extract_single_column:
  "extract_non_null_data (single_column ts)
     = map py_strip (filter (\<lambda>t. t \<notin> set empty_strings) ts)"
proof -
  have c: "concat (single_column ts) = map CStr ts"
    by (induction ts) (simp_all add: single_column_def)
  show ?thesis
    by (simp add: extract_non_null_data_def extract_rows_eq c filter_map o_def)
qed

text \<open>
  Claim C8, amended. Split the flattened text of a chunk at single blanks and flatten the
  one-column chunk made of the pieces: the result is the same sequence of pieces exactly
  when no piece is empty or one of \<open>nan\<close>, \<open>NaN\<close>, \<open>NAN\<close>, and no piece begins or
  ends with whitespace.
\<close>

theorem reflatten_tokens_iff:
  "extract_non_null_data (single_column (split_blank (dataset_text chunk)))
       = split_blank (dataset_text chunk)
   \<longleftrightarrow> (\<forall>t \<in> set (split_blank (dataset_text chunk)).
          t \<notin> set empty_strings \<and> py_strip t = t)"
  by (simp only: extract_single_column map_filter_id_iff)

text \<open>
  For every chunk, as C8 has it, the property fails: a cell \<open>x nan\<close> flattens to the text
  \<open>x nan\<close>, whose second piece the flattener then drops.
\<close>

theorem reflatten_counterexample:
  "extract_non_null_data (single_column (split_blank (dataset_text [[CStr ''x nan'']])))
     \<noteq> split_blank (dataset_text [[CStr ''x nan'']])"
  by (simp add: dataset_text_def extract_non_null_data_def single_column_def py_strip_def
        py_isspace_def empty_strings_def)

theorem reflatten_tokens_iff_witness:
  "extract_non_null_data (single_column (split_blank (dataset_text [[CStr '' John '', CInt 42]])))
     = [''John'', ''42'']"
  using reflatten_tokens_iff [of "[[CStr '' John '', CInt 42]]"]
  by (simp add: dataset_text_def extract_non_null_data_def py_strip_def
        py_isspace_def empty_strings_def string_of_int_def string_of_nat.simps)

subsection \<open>The chunker\<close>

lemma range_step_rows:
  "0 < step \<Longrightarrow>
   concat (map (\<lambda>j. iloc df j (j + step)) (range_step i (length df) step)) = drop i df"
proof (induction i "length df" step rule: range_step.induct)
  case (1 i step)
  show ?case
  proof (cases "length df \<le> i")
    case True
    then show ?thesis by (simp add: range_step.simps)
  next
    case False
    have "take step (drop i df) @ drop (i + step) df = drop i df"
      by (metis add.commute append_take_drop_id drop_drop)
    with False 1 show ?thesis
      by (simp add: range_step.simps [of i] iloc_def)
  qed
qed

lemma range_step_ranges:
  "0 < step \<Longrightarrow>
   concat (map (\<lambda>j. row_range (j, iloc df j (j + step))) (range_step i (length df) step))
     = [i ..< length df]"
proof (induction i "length df" step rule: range_step.induct)
  case (1 i step)
  show ?case
  proof (cases "length df \<le> i")
    case True
    then show ?thesis by (simp add: range_step.simps)
  next
    case False
    have "[i ..< i + min (length df - i) step] @ [i + step ..< length df] = [i ..< length df]"
    proof (cases "i + step \<le> length df")
      case True
      then have "min (length df - i) step = step" by simp
      with True show ?thesis
        by (metis le_add1 upt_add_eq_append le_add_diff_inverse)
    next
      case f: False
      then have "min (length df - i) step = length df - i" by simp
      with f False show ?thesis by simp
    qed
    with False 1 show ?thesis
      by (simp add: range_step.simps [of i] iloc_def row_range_def)
  qed
qed

lemma range_step_below:
  "0 < step \<Longrightarrow> j \<in> set (range_step i stop step) \<Longrightarrow> i \<le> j \<and> j < stop"
proof (induction i stop step rule: range_step.induct)
  case (1 i stop step)
  show ?case
  proof (cases "stop \<le> i")
    case True
    with 1 show ?thesis by (simp add: range_step.simps)
  next
    case False
    with 1(2,3) have "j = i \<or> j \<in> set (range_step (i + step) stop step)"
      by (simp add: range_step.simps [of i])
    with 1 False show ?thesis by fastforce
  qed
qed

lemma range_step_butlast:
  "0 < step \<Longrightarrow> j \<in> set (butlast (range_step i stop step)) \<Longrightarrow> j + step < stop"
proof (induction i stop step rule: range_step.induct)
  case (1 i stop step)
  show ?case
  proof (cases "stop \<le> i")
    case True
    with 1 show ?thesis by (simp add: range_step.simps)
  next
    case False
    show ?thesis
    proof (cases "range_step (i + step) stop step = []")
      case True
      with False 1(2,3) show ?thesis by (simp add: range_step.simps [of i])
    next
      case ne: False
      then have "i + step < stop"
        by (metis range_step.simps not_le)
      with False ne 1 show ?thesis
        by (auto simp: range_step.simps [of i])
    qed
  qed
qed

lemma chunks_1500:
  "length df = 1500 \<Longrightarrow> chunks CHUNK_SIZE df = [(0, take 1000 df), (1000, drop 1000 df)]"
  by (simp add: chunks_def CHUNK_SIZE_def iloc_def range_step.simps [of 0]
        range_step.simps [of 1000] range_step.simps [of 2000])

text \<open>
  Claim C2. The chunks of a table partition its rows: their rows, concatenated, are the
  rows of the table; their row ranges, concatenated, are \<open>0, 1, ..., len(df) - 1\<close>, each
  index once and in increasing order; no chunk is empty or longer than \<open>CHUNK_SIZE\<close>,
  and every chunk but the last has exactly \<open>CHUNK_SIZE\<close> rows. A table of 1500 rows
  gives two chunks, covering the rows 0 to 999 and 1000 to 1499.
\<close>

theorem chunks_partition:
  "concat (map snd (chunks CHUNK_SIZE df)) = df
   \<and> concat (map row_range (chunks CHUNK_SIZE df)) = [0 ..< length df]
   \<and> (\<forall>c \<in> set (chunks CHUNK_SIZE df). 0 < length (snd c) \<and> length (snd c) \<le> CHUNK_SIZE)
   \<and> (\<forall>c \<in> set (butlast (chunks CHUNK_SIZE df)). length (snd c) = CHUNK_SIZE)
   \<and> (length df = 1500 \<longrightarrow>
        map row_range (chunks CHUNK_SIZE df) = [[0 ..< 1000], [1000 ..< 1500]])"
proof -
  have pos: "0 < CHUNK_SIZE" by (simp add: CHUNK_SIZE_def)
  have a: "concat (map snd (chunks CHUNK_SIZE df)) = df"
    using range_step_rows [OF pos, of df 0] by (simp add: chunks_def o_def)
  have b: "concat (map row_range (chunks CHUNK_SIZE df)) = [0 ..< length df]"
    using range_step_ranges [OF pos, of df 0] by (simp add: chunks_def o_def)
  have c: "\<forall>c \<in> set (chunks CHUNK_SIZE df). 0 < length (snd c) \<and> length (snd c) \<le> CHUNK_SIZE"
  proof
    fix c assume "c \<in> set (chunks CHUNK_SIZE df)"
    then obtain j where j: "j \<in> set (range_step 0 (length df) CHUNK_SIZE)"
      and c: "c = (j, iloc df j (j + CHUNK_SIZE))"
      by (auto simp: chunks_def)
    from range_step_below [OF pos j] have "j < length df" by simp
    with pos c show "0 < length (snd c) \<and> length (snd c) \<le> CHUNK_SIZE"
      by (simp add: iloc_def)
  qed
  have d: "\<forall>c \<in> set (butlast (chunks CHUNK_SIZE df)). length (snd c) = CHUNK_SIZE"
  proof
    fix c assume "c \<in> set (butlast (chunks CHUNK_SIZE df))"
    then obtain j where j: "j \<in> set (butlast (range_step 0 (length df) CHUNK_SIZE))"
      and c: "c = (j, iloc df j (j + CHUNK_SIZE))"
      by (auto simp: chunks_def map_butlast [symmetric])
    from range_step_butlast [OF pos j] have "j + CHUNK_SIZE < length df" .
    with c show "length (snd c) = CHUNK_SIZE"
      by (simp add: iloc_def)
  qed
  have e: "length df = 1500 \<longrightarrow>
        map row_range (chunks CHUNK_SIZE df) = [[0 ..< 1000], [1000 ..< 1500]]"
    by (simp add: chunks_1500 row_range_def)
  from a b c d e show ?thesis by blast
qed

theorem chunks_partition_witness:
  "map (\<lambda>c. (fst c, length (snd c))) (chunks CHUNK_SIZE (replicate 1500 [CInt 7]))
     = [(0, CHUNK_SIZE), (1000, 500)]
   \<and> concat (map snd (chunks CHUNK_SIZE (replicate 1500 [CInt 7]))) = replicate 1500 [CInt 7]"
proof -
  let ?df = "replicate 1500 [CInt 7]"
  note p = chunks_partition [of ?df]
  have ch: "chunks CHUNK_SIZE ?df = [(0, replicate 1000 [CInt 7]), (1000, replicate 500 [CInt 7])]"
    by (simp add: chunks_1500)
  from p have "concat (map snd (chunks CHUNK_SIZE ?df)) = ?df"
    by (rule conjunct1)
  moreover from p have "\<forall>c \<in> set (butlast (chunks CHUNK_SIZE ?df)). length (snd c) = CHUNK_SIZE"
    by blast
  then have "length (replicate 1000 [CInt 7]) = CHUNK_SIZE"
    unfolding ch by simp
  ultimately show ?thesis
    unfolding ch by simp
qed

subsection \<open>The model client\<close>

lemma scan_attempts_unfold:
  "attempt < retries \<Longrightarrow>
   scan_attempts w chunk retries delay attempt s =
     (case http_post w (length (sent s)) (scan_request chunk) of
        Responded status_code body \<Rightarrow>
          (let s3 = logging INFO
                      (Message (''Response status code: '' @ string_of_nat status_code) None)
                      (posted chunk s)
           in if status_code = 200 then (get_response w body, s3)
              else (Inr PNone,
                    logging ERROR
                      (Message (''Error from LLM: '' @ string_of_nat status_code
                                  @ '' - '' @ body) None) s3))
      | Raised \<Rightarrow>
          (if attempt < retries - 1
           then scan_attempts w chunk retries delay (attempt + 1)
                  (sleep (delay * (attempt + 1)) (attempt_failed attempt (posted chunk s)))
           else (Inr PNone, attempt_failed attempt (posted chunk s))))"
  unfolding posted_def attempt_failed_def scan_request_def scan_payload_def dataset_text_def
    sending_message_def failed_message_def
  by (subst scan_attempts.simps) (simp add: Let_def logging_def split: http_result.split)

lemma sent_posted [simp]: "sent (posted chunk s) = sent s @ [scan_request chunk]"
  by (simp add: posted_def Let_def logging_def)

lemma scan_attempts_skip:
  "attempt + k < retries \<Longrightarrow>
   \<forall>j < k. http_post w (length (sent s) + j) (scan_request chunk) = Raised \<Longrightarrow>
   scan_attempts w chunk retries delay attempt s
     = scan_attempts w chunk retries delay (attempt + k) (failures chunk delay attempt k s)"
proof (induction k arbitrary: attempt s)
  case 0
  then show ?case by simp
next
  case (Suc k)
  let ?s' = "sleep (delay * (attempt + 1)) (attempt_failed attempt (posted chunk s))"
  from Suc.prems(2) have first: "http_post w (length (sent s)) (scan_request chunk) = Raised"
    by (metis add.right_neutral zero_less_Suc)
  have len: "length (sent ?s') = length (sent s) + 1"
    by (simp add: sleep_def attempt_failed_def logging_def posted_def Let_def)
  have rest: "\<forall>j < k. http_post w (length (sent ?s') + j) (scan_request chunk) = Raised"
  proof (intro allI impI)
    fix j assume "j < k"
    then have "Suc j < Suc k" by simp
    with Suc.prems(2) have "http_post w (length (sent s) + Suc j) (scan_request chunk) = Raised"
      by blast
    then show "http_post w (length (sent ?s') + j) (scan_request chunk) = Raised"
      unfolding len by simp
  qed
  from Suc.prems(1) have lt: "attempt < retries" "attempt < retries - 1" "(attempt + 1) + k < retries"
    by simp_all
  have "scan_attempts w chunk retries delay attempt s
          = scan_attempts w chunk retries delay (attempt + 1) ?s'"
    using lt first by (simp add: scan_attempts_unfold)
  also have "\<dots> = scan_attempts w chunk retries delay ((attempt + 1) + k)
                     (failures chunk delay (attempt + 1) k ?s')"
    by (rule Suc.IH [OF lt(3) rest])
  finally show ?case by simp
qed

lemma failures_fields:
  "sleeps (failures chunk delay attempt k s)
     = sleeps s @ map (\<lambda>i. delay * (i + 1)) [attempt ..< attempt + k]
   \<and> logfile (failures chunk delay attempt k s)
     = logfile s @ concat (map (\<lambda>i. [(INFO, sending_message chunk), (ERROR, failed_message i)])
                            [attempt ..< attempt + k])
   \<and> sent (failures chunk delay attempt k s) = sent s @ replicate k (scan_request chunk)
   \<and> console (failures chunk delay attempt k s) = console s
   \<and> opened (failures chunk delay attempt k s) = opened s
   \<and> timeline (failures chunk delay attempt k s)
     = timeline s @ concat (map (failed_round chunk delay) [attempt ..< attempt + k])"
proof (induction k arbitrary: attempt s)
  case 0
  then show ?case by simp
next
  case (Suc k)
  have "[attempt ..< attempt + Suc k] = attempt # [attempt + 1 ..< attempt + 1 + k]"
    by (simp add: upt_conv_Cons)
  then show ?case
    by (simp add: Suc.IH sleep_def attempt_failed_def logging_def posted_def Let_def
          replicate_app_Cons_same failed_round_def)
qed


text \<open>
  Claim C3. When every one of the five attempts raises a transport failure, the client
  posts exactly five requests, sleeps \<open>delay * 1\<close>, \<open>delay * 2\<close>, \<open>delay * 3\<close> and
  \<open>delay * 4\<close> between them and not after the last, logs each failure as an error,
  prints nothing, and returns \<open>None\<close> without raising. The timeline gives the order:
  four times a request logged and posted, its failure logged and a sleep of \<open>delay\<close>
  times the number of the attempt; then the fifth request logged and posted and its
  failure logged, after which nothing happens.
\<close>

theorem transport_failure_exhausts_retries:
  assumes "\<forall>j < 5. http_post w (length (sent s) + j) (scan_request chunk) = Raised"
  shows "fst (scan_chunk_with_llm w chunk 5 delay s) = Inr PNone
         \<and> sent (snd (scan_chunk_with_llm w chunk 5 delay s))
             = sent s @ replicate 5 (scan_request chunk)
         \<and> sleeps (snd (scan_chunk_with_llm w chunk 5 delay s))
             = sleeps s @ [delay * 1, delay * 2, delay * 3, delay * 4]
         \<and> map fst (logfile (snd (scan_chunk_with_llm w chunk 5 delay s)))
             = map fst (logfile s) @ [INFO, ERROR, INFO, ERROR, INFO, ERROR, INFO, ERROR, INFO, ERROR]
         \<and> console (snd (scan_chunk_with_llm w chunk 5 delay s)) = console s
         \<and> timeline (snd (scan_chunk_with_llm w chunk 5 delay s))
             = timeline s
               @ [Logged INFO (sending_message chunk), Posted (scan_request chunk),
                  Logged ERROR (failed_message 0), Slept (delay * 1),
                  Logged INFO (sending_message chunk), Posted (scan_request chunk),
                  Logged ERROR (failed_message 1), Slept (delay * 2),
                  Logged INFO (sending_message chunk), Posted (scan_request chunk),
                  Logged ERROR (failed_message 2), Slept (delay * 3),
                  Logged INFO (sending_message chunk), Posted (scan_request chunk),
                  Logged ERROR (failed_message 3), Slept (delay * 4),
                  Logged INFO (sending_message chunk), Posted (scan_request chunk),
                  Logged ERROR (failed_message 4)]"
proof -
  let ?s4 = "failures chunk delay 0 4 s"
  note f = failures_fields [of chunk delay 0 4 s]
  have up: "[0 ..< 4] = [0, 1, 2, Suc 2]"
    by (simp add: upt_rec)
  from assms have "\<forall>j < 4. http_post w (length (sent s) + j) (scan_request chunk) = Raised"
    by simp
  then have skip: "scan_attempts w chunk 5 delay 0 s = scan_attempts w chunk 5 delay (0 + 4) ?s4"
    by (intro scan_attempts_skip) simp_all
  from assms have "http_post w (length (sent s) + 4) (scan_request chunk) = Raised"
    by simp
  then have last: "http_post w (length (sent ?s4)) (scan_request chunk) = Raised"
    using f by simp
  have "scan_attempts w chunk 5 delay 4 ?s4 = (Inr PNone, attempt_failed 4 (posted chunk ?s4))"
    using last by (simp add: scan_attempts_unfold)
  with skip have r: "scan_chunk_with_llm w chunk 5 delay s
                       = (Inr PNone, attempt_failed 4 (posted chunk ?s4))"
    by (simp add: scan_chunk_with_llm_def)
  show ?thesis
    unfolding r using f
    by (simp add: attempt_failed_def posted_def logging_def up Let_def
          replicate_append_same numeral_eq_Suc failed_round_def)
qed

theorem transport_failure_exhausts_retries_witness:
  "fst (scan_chunk_with_llm quiet_world [[CStr ''a'']] 5 5 init_state) = Inr PNone
   \<and> length (sent (snd (scan_chunk_with_llm quiet_world [[CStr ''a'']] 5 5 init_state))) = 5
   \<and> sleeps (snd (scan_chunk_with_llm quiet_world [[CStr ''a'']] 5 5 init_state)) = [5, 10, 15, 20]
   \<and> timeline (snd (scan_chunk_with_llm quiet_world [[CStr ''a'']] 5 5 init_state))
       = [Logged INFO (sending_message [[CStr ''a'']]), Posted (scan_request [[CStr ''a'']]),
          Logged ERROR (failed_message 0), Slept 5,
          Logged INFO (sending_message [[CStr ''a'']]), Posted (scan_request [[CStr ''a'']]),
          Logged ERROR (failed_message 1), Slept 10,
          Logged INFO (sending_message [[CStr ''a'']]), Posted (scan_request [[CStr ''a'']]),
          Logged ERROR (failed_message 2), Slept 15,
          Logged INFO (sending_message [[CStr ''a'']]), Posted (scan_request [[CStr ''a'']]),
          Logged ERROR (failed_message 3), Slept 20,
          Logged INFO (sending_message [[CStr ''a'']]), Posted (scan_request [[CStr ''a'']]),
          Logged ERROR (failed_message 4)]"
  using transport_failure_exhausts_retries
          [where w = quiet_world and s = init_state and chunk = "[[CStr ''a'']]" and delay = 5]
  by (simp add: quiet_world_def init_state_def)

lemma scan_attempts_answered:
  assumes "k < retries"
    and "\<forall>j < k. http_post w (length (sent s) + j) (scan_request chunk) = Raised"
    and "http_post w (length (sent s) + k) (scan_request chunk) = Responded status_code body"
  shows "scan_chunk_with_llm w chunk retries delay s =
           (let s3 = logging INFO
                       (Message (''Response status code: '' @ string_of_nat status_code) None)
                       (posted chunk (failures chunk delay 0 k s))
            in if status_code = 200 then (get_response w body, s3)
               else (Inr PNone,
                     logging ERROR
                       (Message (''Error from LLM: '' @ string_of_nat status_code
                                   @ '' - '' @ body) None) s3))"
proof -
  let ?sk = "failures chunk delay 0 k s"
  note f = failures_fields [of chunk delay 0 k s]
  from assms(1,2)
  have skip: "scan_attempts w chunk retries delay 0 s = scan_attempts w chunk retries delay (0 + k) ?sk"
    by (intro scan_attempts_skip) simp_all
  from assms(3) have "http_post w (length (sent ?sk)) (scan_request chunk) = Responded status_code body"
    using f by simp
  then show ?thesis
    using assms(1) skip by (simp add: scan_chunk_with_llm_def scan_attempts_unfold)
qed

text \<open>
  Claim C4. When an attempt is answered with a status code other than 200 (the attempts
  before it, if any, having raised), the client logs the error and returns \<open>None\<close> from
  that attempt: the answered request is the last one posted, and nothing is slept after
  it. Answered at the first attempt, the client does not sleep at all. The timeline gives
  the order: the rounds of the \<open>k\<close> failed attempts, each ending with its sleep, then
  the request logged and posted, the status logged and the error logged, after which
  nothing happens.
\<close>

theorem non_200_returns_none_without_retry:
  assumes "k < retries"
    and "\<forall>j < k. http_post w (length (sent s) + j) (scan_request chunk) = Raised"
    and "http_post w (length (sent s) + k) (scan_request chunk) = Responded status_code body"
    and "status_code \<noteq> 200"
  shows "fst (scan_chunk_with_llm w chunk retries delay s) = Inr PNone
         \<and> sent (snd (scan_chunk_with_llm w chunk retries delay s))
             = sent s @ replicate (k + 1) (scan_request chunk)
         \<and> sleeps (snd (scan_chunk_with_llm w chunk retries delay s))
             = sleeps s @ map (\<lambda>i. delay * (i + 1)) [0 ..< k]
         \<and> last (logfile (snd (scan_chunk_with_llm w chunk retries delay s)))
             = (ERROR, Message (''Error from LLM: '' @ string_of_nat status_code
                                  @ '' - '' @ body) None)
         \<and> console (snd (scan_chunk_with_llm w chunk retries delay s)) = console s
         \<and> timeline (snd (scan_chunk_with_llm w chunk retries delay s))
             = timeline s
               @ concat (map (failed_round chunk delay) [0 ..< k])
               @ [Logged INFO (sending_message chunk),
                  Posted (scan_request chunk),
                  Logged INFO (Message (''Response status code: '' @ string_of_nat status_code) None),
                  Logged ERROR (Message (''Error from LLM: '' @ string_of_nat status_code
                                           @ '' - '' @ body) None)]"
  unfolding scan_attempts_answered [OF assms(1,2,3)]
  using assms(4) failures_fields [of chunk delay 0 k s]
  by (simp add: Let_def logging_def posted_def replicate_append_same)

theorem non_200_returns_none_without_retry_witness:
  "fst (scan_chunk_with_llm
          (quiet_world\<lparr>http_post := \<lambda>k r. Responded 500 ''Internal Server Error''\<rparr>)
          [[CStr ''a'']] 5 5 init_state) = Inr PNone
   \<and> sleeps (snd (scan_chunk_with_llm
          (quiet_world\<lparr>http_post := \<lambda>k r. Responded 500 ''Internal Server Error''\<rparr>)
          [[CStr ''a'']] 5 5 init_state)) = []
   \<and> timeline (snd (scan_chunk_with_llm
          (quiet_world\<lparr>http_post := \<lambda>k r. Responded 500 ''Internal Server Error''\<rparr>)
          [[CStr ''a'']] 5 5 init_state))
       = [Logged INFO (sending_message [[CStr ''a'']]),
          Posted (scan_request [[CStr ''a'']]),
          Logged INFO (Message (''Response status code: '' @ string_of_nat 500) None),
          Logged ERROR (Message (''Error from LLM: '' @ string_of_nat 500
                                   @ '' - '' @ ''Internal Server Error'') None)]
   \<and> timeline (snd (scan_chunk_with_llm
          (quiet_world\<lparr>http_post := \<lambda>k r. if k = 0 then Raised else Responded 404 ''Not Found''\<rparr>)
          [[CStr ''a'']] 5 5 init_state))
       = [Logged INFO (sending_message [[CStr ''a'']]),
          Posted (scan_request [[CStr ''a'']]),
          Logged ERROR (failed_message 0),
          Slept 5,
          Logged INFO (sending_message [[CStr ''a'']]),
          Posted (scan_request [[CStr ''a'']]),
          Logged INFO (Message (''Response status code: '' @ string_of_nat 404) None),
          Logged ERROR (Message (''Error from LLM: '' @ string_of_nat 404
                                   @ '' - '' @ ''Not Found'') None)]"
  using non_200_returns_none_without_retry
          [where k = 0 and retries = 5 and delay = 5 and s = init_state
             and chunk = "[[CStr ''a'']]" and status_code = 500 and body = "''Internal Server Error''"
             and w = "quiet_world\<lparr>http_post := \<lambda>k r. Responded 500 ''Internal Server Error''\<rparr>"]
        non_200_returns_none_without_retry
          [where k = 1 and retries = 5 and delay = 5 and s = init_state
             and chunk = "[[CStr ''a'']]" and status_code = 404 and body = "''Not Found''"
             and w = "quiet_world\<lparr>http_post := \<lambda>k r. if k = 0 then Raised else Responded 404 ''Not Found''\<rparr>"]
  by (simp add: init_state_def failed_round_def)

text \<open>
  Claim C9. When an attempt is answered with status 200 and a body that is a JSON object,
  the client returns the value of the field \<open>response\<close> of that object; an empty field
  and a missing field both give the empty string, which is not \<open>None\<close>.
\<close>

theorem status_200_returns_response_field:
  assumes "k < retries"
    and "\<forall>j < k. http_post w (length (sent s) + j) (scan_request chunk) = Raised"
    and "http_post w (length (sent s) + k) (scan_request chunk) = Responded 200 body"
    and "json_loads w body = Some (PDict kvs)"
  shows "fst (scan_chunk_with_llm w chunk retries delay s)
           = Inr (case map_of kvs ''response'' of None \<Rightarrow> PStr [] | Some v \<Rightarrow> v)
         \<and> (map_of kvs ''response'' = None \<or> map_of kvs ''response'' = Some (PStr [])
              \<longrightarrow> fst (scan_chunk_with_llm w chunk retries delay s) = Inr (PStr [])
                \<and> fst (scan_chunk_with_llm w chunk retries delay s) \<noteq> Inr PNone)"
  unfolding scan_attempts_answered [OF assms(1,2,3)]
  using assms(4)
  by (auto simp: Let_def get_response_def split: option.splits)

theorem status_200_returns_response_field_witness:
  "fst (scan_chunk_with_llm
          (quiet_world\<lparr>http_post := \<lambda>k r. if k = 0 then Raised else Responded 200 ''{}'',
                       json_loads := \<lambda>t. if t = ''{}'' then Some (PDict []) else None\<rparr>)
          [[CStr ''a'']] 5 5 init_state) = Inr (PStr [])"
  using status_200_returns_response_field
          [where k = 1 and retries = 5 and delay = 5 and s = init_state
             and chunk = "[[CStr ''a'']]" and body = "''{}''" and kvs = "[]"
             and w = "quiet_world\<lparr>http_post := \<lambda>k r. if k = 0 then Raised else Responded 200 ''{}'',
                       json_loads := \<lambda>t. if t = ''{}'' then Some (PDict []) else None\<rparr>"]
  by (simp add: init_state_def)

subsection \<open>The reporter\<close>

lemma str_contains_sublist: "str_contains pat v \<longleftrightarrow> sublist pat v"
  by (induction v) (simp_all add: sublist_Cons_right)

text \<open>
  Claim C1, amended. For a verdict that is a non-empty string, the reporter prints and logs
  the clean line exactly when the verdict contains \<open>No PII detected\<close>; otherwise it
  prints and logs the flagged line, and both the printed and the logged line end with the
  full verdict text. For the empty string, as for \<open>None\<close>, it prints and logs nothing.
\<close>

theorem report_result_classifies:
  "(sublist ''No PII detected'' v \<longrightarrow>
      report_result file_path i (PStr v) s
        = Inr (logging INFO (clean_message file_path i) (print (clean_message file_path i) s)))
   \<and> (v \<noteq> [] \<and> \<not> sublist ''No PII detected'' v \<longrightarrow>
      report_result file_path i (PStr v) s
        = Inr (logging INFO (flagged_log file_path i (PStr v))
                 (print (flagged_console file_path i (PStr v)) s))
      \<and> message_text (flagged_console file_path i (PStr v))
          = Some (''\<newline>'' @ rocket @ '' Detected PII in '' @ file_path @ '' ''
                    @ rows_label i @ '':\<newline>'' @ '' '' @ v)
      \<and> message_text (flagged_log file_path i (PStr v))
          = Some (''PII detected in '' @ file_path @ '' '' @ rows_label i @ '': '' @ v))
   \<and> report_result file_path i (PStr []) s = Inr s
   \<and> report_result file_path i PNone s = Inr s"
proof -
  have ne: "sublist ''No PII detected'' v \<Longrightarrow> v \<noteq> []"
    by auto
  show ?thesis
    using ne
    by (auto simp: report_result_def str_contains_sublist clean_message_def flagged_console_def
          flagged_log_def Let_def)
qed

theorem report_result_classifies_witness:
  "report_result ''Data/a.csv'' 0 (PStr ''No PII detected.'') init_state
     = Inr (logging INFO (clean_message ''Data/a.csv'' 0) (print (clean_message ''Data/a.csv'' 0) init_state))
   \<and> report_result ''Data/a.csv'' 0 (PStr ''John Smith'') init_state
     = Inr (logging INFO (flagged_log ''Data/a.csv'' 0 (PStr ''John Smith''))
                 (print (flagged_console ''Data/a.csv'' 0 (PStr ''John Smith'')) init_state))"
  using report_result_classifies [where v = "''No PII detected.''" and file_path = "''Data/a.csv''"
          and i = 0 and s = init_state]
        report_result_classifies [where v = "''John Smith''" and file_path = "''Data/a.csv''"
          and i = 0 and s = init_state]
  by (simp add: str_contains_sublist [symmetric])

text \<open>
  The empty string does not contain the marker, yet the reporter does not flag it: the
  guard \<open>if result:\<close> lets it pass like \<open>None\<close>.
\<close>

theorem empty_verdict_counterexample:
  "\<not> sublist ''No PII detected'' ''''
   \<and> report_result ''Data/a.csv'' 0 (PStr '''') init_state = Inr init_state"
  by (simp add: report_result_def)

subsection \<open>The liveness probe\<close>

text \<open>
  Claim C6. When the data folder exists and the probe (a GET of the server root with a
  timeout of 10 seconds) raises or is answered with a status other than 200, the run
  prints and logs that the server is not available and ends: no file is handed to pandas,
  no request is posted, the log gains that one entry only, and the run is the same
  whatever the folder holds.
\<close>

theorem probe_failure_aborts_run:
  assumes "path_exists w DATA_FOLDER"
    and "http_get w ''http://localhost:11434'' 10 = Raised
         \<or> (\<exists>status_code body. http_get w ''http://localhost:11434'' 10 = Responded status_code body
               \<and> status_code \<noteq> 200)"
  shows "main w s = (None, print probe_error (logging ERROR probe_error s))
         \<and> opened (snd (main w s)) = opened s
         \<and> sent (snd (main w s)) = sent s
         \<and> logfile (snd (main w s)) = logfile s @ [(ERROR, probe_error)]
         \<and> main (w\<lparr>listdir := l, file_records := f, http_post := p\<rparr>) s = main w s"
  using assms
  by (auto simp: main_def check_ollama_server_def probe_error_def print_def logging_def)

theorem probe_failure_aborts_run_witness:
  "main (quiet_world\<lparr>listdir := \<lambda>d. Some [''a.csv'']\<rparr>) init_state
     = (None, print probe_error (logging ERROR probe_error init_state))
   \<and> main (quiet_world\<lparr>listdir := \<lambda>d. Some [''a.csv''],
                          http_get := \<lambda>u t. Responded 503 ''Service Unavailable''\<rparr>) init_state
     = (None, print probe_error (logging ERROR probe_error init_state))"
  using probe_failure_aborts_run [where w = "quiet_world\<lparr>listdir := \<lambda>d. Some [''a.csv'']\<rparr>"
          and s = init_state]
        probe_failure_aborts_run [where w = "quiet_world\<lparr>listdir := \<lambda>d. Some [''a.csv''],
                          http_get := \<lambda>u t. Responded 503 ''Service Unavailable''\<rparr>"
          and s = init_state]
  by (simp add: quiet_world_def)

subsection \<open>Choosing the reader and listing the folder\<close>

lemma rfind_append_notin:
  assumes "c \<notin> set ys"
  shows "rfind c (xs @ ys) = rfind c xs"
proof -
  have split: "[0 ..< length (xs @ ys)] = [0 ..< length xs] @ [length xs ..< length xs + length ys]"
    using upt_add_eq_append [of 0 "length xs" "length ys"] by simp
  have hi: "filter (\<lambda>i. (xs @ ys) ! i = c) (rev [length xs ..< length xs + length ys]) = []"
  proof -
    have "(xs @ ys) ! i \<noteq> c" if "length xs \<le> i" "i < length xs + length ys" for i
    proof -
      from that have "(xs @ ys) ! i = ys ! (i - length xs)"
        by (simp add: nth_append)
      moreover from that have "i - length xs < length ys"
        by arith
      then have "ys ! (i - length xs) \<in> set ys"
        by (rule nth_mem)
      ultimately show ?thesis
        using assms by auto
    qed
    then show ?thesis by (auto simp: filter_empty_conv)
  qed
  have lo: "filter (\<lambda>i. (xs @ ys) ! i = c) (rev [0 ..< length xs])
              = filter (\<lambda>i. xs ! i = c) (rev [0 ..< length xs])"
    by (rule filter_cong) (simp_all add: nth_append)
  show ?thesis
    unfolding rfind_def split by (simp only: rev_append filter_append hi lo append_Nil)
qed

lemma rfind_snoc: "rfind c (xs @ [c]) = int (length xs)"
  by (simp add: rfind_def)

lemma rfind_last:
  assumes "c \<notin> set ys"
  shows "rfind c (xs @ c # ys) = int (length xs)"
proof -
  have "rfind c ((xs @ [c]) @ ys) = rfind c (xs @ [c])"
    using assms by (rule rfind_append_notin)
  then show ?thesis by (simp add: rfind_snoc)
qed

lemma rfind_bounds: "- 1 \<le> rfind c p \<and> rfind c p < int (length p)"
proof (cases "filter (\<lambda>i. p ! i = c) (rev [0 ..< length p])")
  case Nil
  then show ?thesis by (simp add: rfind_def)
next
  case (Cons i r)
  then have "i \<in> set (filter (\<lambda>i. p ! i = c) (rev [0 ..< length p]))" by simp
  then have "i < length p" by simp
  with Cons show ?thesis by (simp add: rfind_def)
qed

lemma splitext_name:
  assumes "CHR ''/'' \<notin> set base" and "CHR ''/'' \<notin> set e" and "CHR ''.'' \<notin> set e"
    and "\<exists>c \<in> set base. c \<noteq> CHR ''.''"
  shows "splitext (dir @ base @ CHR ''.'' # e) = (dir @ base, CHR ''.'' # e)"
proof -
  let ?p = "dir @ base @ CHR ''.'' # e"
  have dot: "rfind (CHR ''.'') ?p = int (length (dir @ base))"
    using rfind_last [OF assms(3), of "dir @ base"] by simp
  have "CHR ''/'' \<notin> set (base @ CHR ''.'' # e)"
    using assms(1,2) by simp
  then have sep: "rfind (CHR ''/'') ?p = rfind (CHR ''/'') dir"
    using rfind_append_notin [of "CHR ''/''" "base @ CHR ''.'' # e" dir] by simp
  from rfind_bounds [of "CHR ''/''" dir]
  have b: "- 1 \<le> rfind (CHR ''/'') dir" "rfind (CHR ''/'') dir < int (length dir)"
    by simp_all
  from assms(4) obtain j where j: "j < length base" "base ! j \<noteq> CHR ''.''"
    by (metis in_set_conv_nth)
  have "length dir + j \<in> set [nat (rfind (CHR ''/'') dir + 1) ..< length (dir @ base)]"
    using b j by auto
  moreover have "?p ! (length dir + j) \<noteq> CHR ''.''"
    using j by (simp add: nth_append)
  ultimately have ex: "list_ex (\<lambda>k. ?p ! k \<noteq> CHR ''.'')
                         [nat (rfind (CHR ''/'') dir + 1) ..< length (dir @ base)]"
    unfolding list_ex_iff by blast
  have gt: "rfind (CHR ''/'') dir < int (length (dir @ base))"
    using b by simp
  have n: "nat (int (length dir) + int (length base)) = length dir + length base"
    by simp
  show ?thesis
    unfolding splitext_def dot sep Let_def
    using ex gt by (simp add: n)
qed

lemma py_lower_dot: "py_lower (CHR ''.'' # e) = CHR ''.'' # py_lower e"
  by (simp add: py_lower_def py_lower_char_def)

lemma py_lower_suffixes:
  "py_lower ''.csv'' = ''.csv''" "py_lower ''.xls'' = ''.xls''" "py_lower ''.xlsx'' = ''.xlsx''"
  by (simp_all add: py_lower_def py_lower_char_def)

lemma endswith_lower:
  assumes "endswith f [''.csv'', ''.xls'', ''.xlsx'']"
  shows "endswith (py_lower f) [''.csv'', ''.xls'', ''.xlsx'']"
proof -
  have m: "suffix suf f \<Longrightarrow> suffix (py_lower suf) (py_lower f)" for suf
    by (auto simp: suffix_def py_lower_def)
  from assms show ?thesis
    unfolding endswith_def using m [of "''.csv''"] m [of "''.xls''"] m [of "''.xlsx''"]
    by (auto simp: py_lower_suffixes)
qed

lemma scan_attempts_same_world:
  assumes "http_post w' = http_post w" and "json_loads w' = json_loads w"
  shows "scan_attempts w' chunk retries delay attempt s
           = scan_attempts w chunk retries delay attempt s"
proof (induction "retries - attempt" arbitrary: attempt s)
  case 0
  then show ?case by (simp add: scan_attempts.simps)
next
  case (Suc n)
  then have lt: "attempt < retries" and m: "n = retries - (attempt + 1)"
    by simp_all
  have g: "get_response w' = get_response w"
    using assms(2) by (simp add: get_response_def fun_eq_iff)
  show ?case
    using Suc.hyps(1) [OF m]
    by (simp add: scan_attempts_unfold [OF lt] assms(1) g Let_def split: http_result.split)
qed

lemma chunk_loop_same_world:
  assumes "http_post w' = http_post w" and "json_loads w' = json_loads w"
  shows "chunk_loop w' file_path cs s = chunk_loop w file_path cs s"
proof (induction cs arbitrary: s)
  case Nil
  show ?case by simp
next
  case (Cons c cs)
  obtain i chunk where c: "c = (i, chunk)" by (cases c)
  show ?case
    unfolding c
    by (simp add: scan_chunk_with_llm_def scan_attempts_same_world [OF assms] Cons.IH
          split: prod.split sum.split)
qed

lemma process_table_same_world:
  assumes "http_post w' = http_post w" and "json_loads w' = json_loads w"
  shows "process_table w' file_path df s = process_table w file_path df s"
  by (simp add: process_table_def Let_def chunk_loop_same_world [OF assms])

lemma pd_read_same_world:
  assumes "file_records w' file_path = file_records w file_path"
  shows "pd_read w' rd file_path n = pd_read w rd file_path n"
  by (simp add: pd_read_def assms)

lemma process_file_same_world:
  assumes "http_post w' = http_post w" and "json_loads w' = json_loads w"
    and "file_records w' file_path = file_records w file_path"
  shows "process_file w' file_path s = process_file w file_path s"
proof -
  have t: "process_file_try w' file_path s = process_file_try w file_path s"
  proof (cases "select_reader file_path")
    case None
    then show ?thesis by (simp add: process_file_try_def)
  next
    case (Some rd)
    have r: "pd_read w' rd file_path 1 = pd_read w rd file_path 1"
      using assms(3) by (rule pd_read_same_world)
    show ?thesis
    proof (cases "pd_read w rd file_path 1")
      case (Inl e)
      with Some r show ?thesis by (simp add: process_file_try_def)
    next
      case (Inr df)
      with Some r show ?thesis
        by (simp add: process_file_try_def process_table_same_world [OF assms(1,2)])
    qed
  qed
  show ?thesis
    unfolding process_file_def t by (rule refl)
qed

lemma main_listing_filtered:
  "main (w\<lparr>listdir := \<lambda>d. map_option
             (filter (\<lambda>f. endswith (py_lower f) [''.csv'', ''.xls'', ''.xlsx''])) (listdir w d)\<rparr>) s
     = main w s"
proof -
  let ?keep = "\<lambda>f. endswith (py_lower f) [''.csv'', ''.xls'', ''.xlsx'']"
  let ?w = "w\<lparr>listdir := \<lambda>d. map_option (filter ?keep) (listdir w d)\<rparr>"
  have ff: "filter (\<lambda>f. ?keep f \<and> endswith f [''.csv'', ''.xls'', ''.xlsx'']) names
        = filter (\<lambda>f. endswith f [''.csv'', ''.xls'', ''.xlsx'']) names" for names
  proof (rule filter_cong [OF refl])
    fix f
    show "(?keep f \<and> endswith f [''.csv'', ''.xls'', ''.xlsx''])
            = endswith f [''.csv'', ''.xls'', ''.xlsx'']"
      using endswith_lower [of f] by blast
  qed
  have pf: "process_file ?w file_path = process_file w file_path" for file_path
    by (rule ext, rule process_file_same_world) simp_all
  have c: "check_ollama_server ?w = check_ollama_server w"
    by (simp add: check_ollama_server_def)
  show ?thesis
  proof (cases "listdir w DATA_FOLDER")
    case None
    then show ?thesis
      unfolding main_def c by simp
  next
    case (Some names)
    then show ?thesis
      unfolding main_def c pf by (simp add: ff)
  qed
qed

lemma select_reader_name:
  assumes "CHR ''/'' \<notin> set base" and "CHR ''/'' \<notin> set e" and "CHR ''.'' \<notin> set e"
    and "\<exists>c \<in> set base. c \<noteq> CHR ''.''"
  shows "select_reader (dir @ base @ ''.'' @ e)
           = (if py_lower e = ''csv'' then Some ReadCsv
              else if py_lower e = ''xls'' \<or> py_lower e = ''xlsx'' then Some ReadExcel
              else None)"
  using splitext_name [OF assms, of dir]
  by (simp add: select_reader_def py_lower_dot)

text \<open>
  Claim C7, amended. \<open>process_file\<close> chooses the reader by the extension of the path it
  is given, compared without regard to letter case: two paths whose extensions agree up to
  case get the same reader, and a name \<open>base.e\<close> is read as CSV when \<open>e\<close> is \<open>csv\<close> in
  any letter case, as Excel when it is \<open>xls\<close> or \<open>xlsx\<close> in any letter case, and by no
  reader otherwise. A path with no reader is logged as a warning and nothing else happens
  to it; the loop of \<open>main\<close> then goes on with the next file. A directory entry whose
  name ends in none of \<open>.csv\<close>, \<open>.xls\<close>, \<open>.xlsx\<close> in any letter case never reaches
  \<open>process_file\<close>: the run is the same without it.
\<close>

theorem reader_selected_by_lowered_extension:
  "(py_lower (snd (splitext p)) = py_lower (snd (splitext q)) \<longrightarrow> select_reader p = select_reader q)
   \<and> (CHR ''/'' \<notin> set base \<and> CHR ''/'' \<notin> set e \<and> CHR ''.'' \<notin> set e
        \<and> (\<exists>c \<in> set base. c \<noteq> CHR ''.'') \<longrightarrow>
        select_reader (dir @ base @ ''.'' @ e)
          = (if py_lower e = ''csv'' then Some ReadCsv
             else if py_lower e = ''xls'' \<or> py_lower e = ''xlsx'' then Some ReadExcel
             else None))
   \<and> (select_reader p = None \<longrightarrow>
        process_file w p s = logging WARNING (Message (''Unsupported file format: '' @ p) None) s)
   \<and> (select_reader (path_join DATA_FOLDER f) = None \<longrightarrow>
        fold (\<lambda>file. process_file w (path_join DATA_FOLDER file)) (f # fs) s
          = fold (\<lambda>file. process_file w (path_join DATA_FOLDER file)) fs
              (logging WARNING
                 (Message (''Unsupported file format: '' @ path_join DATA_FOLDER f) None) s))
   \<and> main (w\<lparr>listdir := \<lambda>d. map_option
               (filter (\<lambda>f. endswith (py_lower f) [''.csv'', ''.xls'', ''.xlsx''])) (listdir w d)\<rparr>) s
       = main w s"
proof -
  have a: "py_lower (snd (splitext p)) = py_lower (snd (splitext q)) \<longrightarrow>
             select_reader p = select_reader q"
    by (simp add: select_reader_def)
  have b: "CHR ''/'' \<notin> set base \<and> CHR ''/'' \<notin> set e \<and> CHR ''.'' \<notin> set e
        \<and> (\<exists>c \<in> set base. c \<noteq> CHR ''.'') \<longrightarrow>
        select_reader (dir @ base @ ''.'' @ e)
          = (if py_lower e = ''csv'' then Some ReadCsv
             else if py_lower e = ''xls'' \<or> py_lower e = ''xlsx'' then Some ReadExcel
             else None)"
    using select_reader_name [of base e dir] by blast
  have c: "select_reader p = None \<Longrightarrow>
        process_file w p s = logging WARNING (Message (''Unsupported file format: '' @ p) None) s"
    for p s
    by (simp add: process_file_def process_file_try_def)
  have d: "select_reader (path_join DATA_FOLDER f) = None \<longrightarrow>
        fold (\<lambda>file. process_file w (path_join DATA_FOLDER file)) (f # fs) s
          = fold (\<lambda>file. process_file w (path_join DATA_FOLDER file)) fs
              (logging WARNING
                 (Message (''Unsupported file format: '' @ path_join DATA_FOLDER f) None) s)"
    using c [of "path_join DATA_FOLDER f" s] by simp
  from a b c [of p s] d main_listing_filtered [of w s] show ?thesis
    by blast
qed

theorem reader_selected_by_lowered_extension_witness:
  "select_reader ''Data/REPORT.CsV'' = select_reader ''Data/report.csv''
   \<and> select_reader ''Data/REPORT.CsV'' = Some ReadCsv
   \<and> process_file quiet_world ''Data/notes.txt'' init_state
       = logging WARNING (Message ''Unsupported file format: Data/notes.txt'' None) init_state"
proof -
  note t = reader_selected_by_lowered_extension
             [where p = "''Data/REPORT.CsV''" and q = "''Data/report.csv''"
                and dir = "''Data/''" and base = "''REPORT''" and e = "''CsV''"]
  note u = reader_selected_by_lowered_extension
             [where p = "''Data/notes.txt''" and w = quiet_world and s = init_state]
  have h1: "py_lower (snd (splitext ''Data/REPORT.CsV''))
              = py_lower (snd (splitext ''Data/report.csv''))"
    by code_simp
  have h2: "py_lower ''CsV'' = ''csv''"
    by code_simp
  have h3: "select_reader ''Data/notes.txt'' = None"
    by code_simp
  from t h1 have a: "select_reader ''Data/REPORT.CsV'' = select_reader ''Data/report.csv''"
    by blast
  from t have "select_reader (''Data/'' @ ''REPORT'' @ ''.'' @ ''CsV'')
                 = (if py_lower ''CsV'' = ''csv'' then Some ReadCsv
                    else if py_lower ''CsV'' = ''xls'' \<or> py_lower ''CsV'' = ''xlsx''
                         then Some ReadExcel else None)"
    by simp
  then have b: "select_reader ''Data/REPORT.CsV'' = Some ReadCsv"
    by (simp add: h2)
  from u h3 have c: "process_file quiet_world ''Data/notes.txt'' init_state
       = logging WARNING (Message ''Unsupported file format: Data/notes.txt'' None) init_state"
    by simp
  from a b c show ?thesis by blast
qed

text \<open>
  For the files of the input directory, as C7 has it, the property fails: \<open>main\<close> keeps
  only the names that end in the lower-case suffixes. \<open>DATA.CSV\<close>, which
  \<open>process_file\<close> would read as CSV, is not processed as \<open>data.csv\<close> is, and
  \<open>notes.txt\<close> is dropped without a warning: the run reports that there are no datasets.
\<close>

theorem listing_filter_counterexample:
  "select_reader (path_join DATA_FOLDER ''DATA.CSV'') = Some ReadCsv
   \<and> main (dir_world [''DATA.CSV'', ''notes.txt'']) init_state
       = (None,
          print (Message ''No datasets found.'' None)
            (logging INFO (Message ''No datasets found in the Data folder.'' None) init_state))
   \<and> opened (snd (main (dir_world [''data.csv'']) init_state)) = [''Data/data.csv'']"
proof -
  have a: "select_reader (path_join DATA_FOLDER ''DATA.CSV'') = Some ReadCsv"
    by code_simp
  have e1: "\<not> endswith ''DATA.CSV'' [''.csv'', ''.xls'', ''.xlsx'']"
    by code_simp
  have e2: "\<not> endswith ''notes.txt'' [''.csv'', ''.xls'', ''.xlsx'']"
    by code_simp
  have e3: "endswith ''data.csv'' [''.csv'', ''.xls'', ''.xlsx'']"
    by code_simp
  have p: "path_join DATA_FOLDER ''data.csv'' = ''Data/data.csv''"
    by code_simp
  have r: "select_reader ''Data/data.csv'' = Some ReadCsv"
    by code_simp
  have b: "main (dir_world [''DATA.CSV'', ''notes.txt'']) init_state
       = (None,
          print (Message ''No datasets found.'' None)
            (logging INFO (Message ''No datasets found in the Data folder.'' None) init_state))"
    by (simp add: main_def dir_world_def quiet_world_def check_ollama_server_def e1 e2)
  have c: "opened (snd (main (dir_world [''data.csv'']) init_state)) = [''Data/data.csv'']"
    by (simp add: main_def dir_world_def quiet_world_def check_ollama_server_def e3 p r
          process_file_def process_file_try_def pd_read_def logging_def init_state_def)
  from a b c show ?thesis by blast
qed

subsection \<open>The rows that are scanned\<close>

text \<open>
  Claim C10. For a file with a supported extension, the reader is called with
  \<open>skiprows=1\<close>: the first record is dropped, the second names the columns, and the
  DataFrame holds the records after it. All that \<open>process_file\<close> prints, logs and
  posts is computed from these rows: replacing the first two records by any others leaves
  the run the same.
\<close>

theorem first_two_records_never_scanned:
  assumes "select_reader file_path = Some rd"
    and "file_records w file_path = Some (r1 # r2 # body)"
  shows "pd_read w rd file_path 1 = Inr \<lparr>columns = r2, rows = body\<rparr>
         \<and> process_file_try w file_path s
             = process_table w file_path body
                 (s\<lparr>opened := opened s @ [file_path],
                    timeline := timeline s @ [Opened file_path]\<rparr>)
         \<and> process_file
               (w\<lparr>file_records := (file_records w)(file_path := Some (r1' # r2' # body))\<rparr>)
               file_path s
             = process_file w file_path s"
proof -
  let ?w = "w\<lparr>file_records := (file_records w)(file_path := Some (r1' # r2' # body))\<rparr>"
  let ?s = "s\<lparr>opened := opened s @ [file_path], timeline := timeline s @ [Opened file_path]\<rparr>"
  have r: "pd_read w rd file_path 1 = Inr \<lparr>columns = r2, rows = body\<rparr>"
    using assms(2) by (simp add: pd_read_def)
  have r': "pd_read ?w rd file_path 1 = Inr \<lparr>columns = r2', rows = body\<rparr>"
    by (simp add: pd_read_def)
  have t: "process_file_try w file_path s = process_table w file_path body ?s"
    using assms(1) r by (simp add: process_file_try_def)
  have "process_file_try ?w file_path s = process_table ?w file_path body ?s"
    using assms(1) r' by (simp add: process_file_try_def)
  also have "\<dots> = process_table w file_path body ?s"
    by (rule process_table_same_world) simp_all
  finally have "process_file_try ?w file_path s = process_file_try w file_path s"
    using t by simp
  then have "process_file ?w file_path s = process_file w file_path s"
    by (simp add: process_file_def)
  with r t show ?thesis by blast
qed

theorem first_two_records_never_scanned_witness:
  "pd_read (quiet_world\<lparr>file_records := \<lambda>p. Some [[CStr ''Report 2024''], [CStr ''name''], [CStr ''Alice'']]\<rparr>)
     ReadCsv ''Data/a.csv'' 1
     = Inr \<lparr>columns = [CStr ''name''], rows = [[CStr ''Alice'']]\<rparr>
   \<and> process_file
       (quiet_world\<lparr>file_records := \<lambda>p. Some [[CStr ''Report 2024''], [CStr ''name''], [CStr ''Alice'']]\<rparr>
          \<lparr>file_records :=
             (file_records (quiet_world\<lparr>file_records := \<lambda>p. Some [[CStr ''Report 2024''], [CStr ''name''], [CStr ''Alice'']]\<rparr>))
               (''Data/a.csv'' := Some [[CStr ''John Smith''], [CStr ''555-1234''], [CStr ''Alice'']])\<rparr>)
       ''Data/a.csv'' init_state
     = process_file
         (quiet_world\<lparr>file_records := \<lambda>p. Some [[CStr ''Report 2024''], [CStr ''name''], [CStr ''Alice'']]\<rparr>)
         ''Data/a.csv'' init_state"
proof -
  have r: "select_reader ''Data/a.csv'' = Some ReadCsv"
    by code_simp
  have f: "file_records (quiet_world\<lparr>file_records := \<lambda>p. Some [[CStr ''Report 2024''], [CStr ''name''], [CStr ''Alice'']]\<rparr>)
             ''Data/a.csv'' = Some ([CStr ''Report 2024''] # [CStr ''name''] # [[CStr ''Alice'']])"
    by simp
  from first_two_records_never_scanned [OF r f,
         where s = init_state and r1' = "[CStr ''John Smith'']" and r2' = "[CStr ''555-1234'']"]
  show ?thesis by simp
qed

end
